theory Spec2Isabelle
  imports Main "HOL-Library.AList" "HOL-Library.Sublist"
begin

section \<open>JavaScript values\<close>

text \<open>
  The backend is TypeScript on Express. Request bodies, stored items and response bodies are
  JSON-shaped JavaScript values. An object is an association list in insertion order; its
  keys are distinct in every object the code builds. Numbers are modelled by integers: the
  code only tests them for truthiness and writes the literals 400, 404 and 500.
\<close>

datatype jsval =
    JUndefined
  | JNull
  | JBool bool
  | JNum int
  | JStr string
  | JArr "jsval list"
  | JObj "(string \<times> jsval) list"

type_synonym jsobj = "(string \<times> jsval) list"

text \<open>JavaScript truthiness, as tested by \<open>!x\<close> and \<open>x || y\<close>.\<close>

fun truthy :: "jsval \<Rightarrow> bool" where
  "truthy JUndefined = False"
| "truthy JNull = False"
| "truthy (JBool b) = b"
| "truthy (JNum n) = (n \<noteq> 0)"
| "truthy (JStr s) = (s \<noteq> [])"
| "truthy (JArr xs) = True"
| "truthy (JObj kvs) = True"

text \<open>Property read \<open>obj.k\<close>: an absent property reads as \<open>undefined\<close>.\<close>

definition get_prop :: "jsobj \<Rightarrow> string \<Rightarrow> jsval" where
  "get_prop obj k = (case map_of obj k of None \<Rightarrow> JUndefined | Some v \<Rightarrow> v)"

text \<open>
  Property write, as an object literal \<open>{...obj, k: v}\<close> performs it: an existing key keeps
  its position and takes the new value, a new key is appended.
\<close>

definition assign :: "string \<Rightarrow> jsval \<Rightarrow> jsobj \<Rightarrow> jsobj" where
  "assign k v obj = AList.update k v obj"

definition keys :: "jsobj \<Rightarrow> string list" where
  "keys obj = map fst obj"

section \<open>Errors, process environment, console\<close>

text \<open>
  \<open>interface ApiError extends Error { statusCode?: number; isOperational?: boolean }\<close>
  (errorHandler.ts). \<open>isOperational\<close> is never read and is left out. \<open>new Error(msg)\<close>
  has name \<open>Error\<close>, no status code, and a stack text supplied by the engine, of which
  only the header line is modelled.
\<close>

record api_error =
  name :: string
  message :: string
  stack :: "string option"
  statusCode :: "int option"

definition new_Error :: "string \<Rightarrow> api_error" where
  "new_Error msg =
     \<lparr>name = ''Error'', message = msg, stack = Some (''Error: '' @ msg), statusCode = None\<rparr>"

text \<open>\<open>process.env\<close>: the two variables the backend reads.\<close>

record process_env =
  SAMPLE_TABLE :: "string option"
  ENVIRONMENT :: "string option"

text \<open>
  The \<open>console.error\<close> stream: the label and the logged argument of each call. The
  \<open>console.info\<close> and \<open>console.log\<close> calls have no effect on control flow and are
  not recorded.
\<close>

datatype logged = LoggedError api_error | LoggedObject jsobj

type_synonym log_entry = "string \<times> logged"

section \<open>The document client\<close>

text \<open>
  \<open>ddbDocClient.send(command)\<close> is the only access to the table. The adapter is written
  against any client: a function from the command and the store's state to either the error
  the call rejects with or its output, and the store's next state.
\<close>

datatype ddb_command =
    ScanCommand string
  | GetCommand string jsobj
  | PutCommand string jsobj

record ddb_output =
  Items :: "jsobj list option"
  Item :: "jsobj option"

type_synonym 'st ddb_client = "ddb_command \<Rightarrow> 'st \<Rightarrow> (api_error + ddb_output) \<times> 'st"

record 'st world =
  db :: 'st
  console_error :: "log_entry list"

section \<open>DynamoDBService (services/dynamodb.ts)\<close>

text \<open>\<open>const tableName = process.env.SAMPLE_TABLE\<close>; \<open>!tableName\<close> holds when the variable is
  unset or empty.\<close>

definition tableName_unset :: "process_env \<Rightarrow> bool" where
  "tableName_unset env = (case SAMPLE_TABLE env of None \<Rightarrow> True | Some t \<Rightarrow> t = [])"

definition tableName :: "process_env \<Rightarrow> string" where
  "tableName env = (case SAMPLE_TABLE env of None \<Rightarrow> [] | Some t \<Rightarrow> t)"

definition getAllItems ::
  "'st ddb_client \<Rightarrow> process_env \<Rightarrow> 'st world \<Rightarrow> (api_error + jsobj list) \<times> 'st world" where
  "getAllItems send env w =
     (if tableName_unset env
      then (Inl (new_Error ''SAMPLE_TABLE environment variable is not set''), w)
      else
        (case send (ScanCommand (tableName env)) (db w) of
           (Inr data, s) \<Rightarrow>
             (Inr (case Items data of None \<Rightarrow> [] | Some xs \<Rightarrow> xs), w\<lparr>db := s\<rparr>)
         | (Inl error, s) \<Rightarrow>
             (Inl (new_Error ''Failed to retrieve items from database''),
              w\<lparr>db := s,
                console_error := console_error w @ [(''Error getting all items:'', LoggedError error)]\<rparr>)))"

definition getItemById ::
  "'st ddb_client \<Rightarrow> process_env \<Rightarrow> string \<Rightarrow> 'st world \<Rightarrow> (api_error + jsobj option) \<times> 'st world" where
  "getItemById send env ident w =
     (if tableName_unset env
      then (Inl (new_Error ''SAMPLE_TABLE environment variable is not set''), w)
      else if ident = []
      then (Inl (new_Error ''ID parameter is required''), w)
      else
        (case send (GetCommand (tableName env) [(''id'', JStr ident)]) (db w) of
           (Inr data, s) \<Rightarrow> (Inr (Item data), w\<lparr>db := s\<rparr>)
         | (Inl error, s) \<Rightarrow>
             (Inl (new_Error ''Failed to retrieve item from database''),
              w\<lparr>db := s,
                console_error := console_error w @ [(''Error getting item by id:'', LoggedError error)]\<rparr>)))"

text \<open>\<open>now\<close> is what \<open>new Date().toISOString()\<close> returns at the call.\<close>

definition putItem ::
  "'st ddb_client \<Rightarrow> process_env \<Rightarrow> string \<Rightarrow> jsobj \<Rightarrow> 'st world \<Rightarrow> (api_error + jsobj) \<times> 'st world" where
  "putItem send env now item w =
     (if tableName_unset env
      then (Inl (new_Error ''SAMPLE_TABLE environment variable is not set''), w)
      else if \<not> truthy (get_prop item ''id'') \<or> \<not> truthy (get_prop item ''name'')
      then (Inl (new_Error ''Both id and name are required''), w)
      else
        (let timestamp = now;
             itemWithTimestamps =
               assign ''updatedAt'' (JStr timestamp) (assign ''createdAt'' (JStr timestamp) item)
         in case send (PutCommand (tableName env) itemWithTimestamps) (db w) of
              (Inr data, s) \<Rightarrow> (Inr itemWithTimestamps, w\<lparr>db := s\<rparr>)
            | (Inl error, s) \<Rightarrow>
                (Inl (new_Error ''Failed to save item to database''),
                 w\<lparr>db := s,
                   console_error := console_error w @ [(''Error putting item:'', LoggedError error)]\<rparr>)))"

section \<open>Express: requests, responses, the items router (routes/items.ts)\<close>

text \<open>
  \<open>path\<close> is \<open>req.path\<close> as the router's handlers read it, relative to the mount point
  \<open>/api/items\<close>; \<open>full_path\<close> is \<open>req.path\<close> as middleware outside the router reads it,
  the whole path of the request. \<open>params_id\<close> is the segment that \<open>/:id\<close> captures; it is
  empty when the path has no such segment.
\<close>

record request =
  path :: string
  full_path :: string
  req_method :: string
  params_id :: string
  body :: jsobj

record response =
  status :: int
  json :: jsval

text \<open>A route handler either writes the response or hands an error to \<open>next\<close>.\<close>

datatype outcome = Sent response | Next api_error

text \<open>\<open>router.get('/')\<close>; \<open>res.json\<close> without \<open>res.status\<close> answers 200.\<close>

definition router_get_all ::
  "'st ddb_client \<Rightarrow> process_env \<Rightarrow> request \<Rightarrow> 'st world \<Rightarrow> outcome \<times> 'st world" where
  "router_get_all send env req w =
     (case getAllItems send env w of
        (Inr items, w') \<Rightarrow> (Sent \<lparr>status = 200, json = JArr (map JObj items)\<rparr>, w')
      | (Inl error, w') \<Rightarrow> (Next error, w'))"

text \<open>\<open>router.get('/:id')\<close>.\<close>

definition router_get_by_id ::
  "'st ddb_client \<Rightarrow> process_env \<Rightarrow> string \<Rightarrow> request \<Rightarrow> 'st world \<Rightarrow> outcome \<times> 'st world" where
  "router_get_by_id send env now req w =
     (let ident = params_id req in
      case getItemById send env ident w of
        (Inr None, w') \<Rightarrow>
          (Sent \<lparr>status = 404,
                 json = JObj [(''error'', JObj
                   [(''message'', JStr (''Item with id '' @ [CHR 0x27] @ ident @ [CHR 0x27] @ '' not found'')),
                    (''statusCode'', JNum 404),
                    (''timestamp'', JStr now),
                    (''path'', JStr (path req))])]\<rparr>, w')
      | (Inr (Some item), w') \<Rightarrow> (Sent \<lparr>status = 200, json = JObj item\<rparr>, w')
      | (Inl error, w') \<Rightarrow> (Next error, w'))"

text \<open>
  Express tries the GET routes in the order of their registration: \<open>'/'\<close> answers a path
  without an id segment, and \<open>'/:id'\<close> matches only a non-empty segment.
\<close>

definition router_get ::
  "'st ddb_client \<Rightarrow> process_env \<Rightarrow> string \<Rightarrow> request \<Rightarrow> 'st world \<Rightarrow> outcome \<times> 'st world" where
  "router_get send env now req w =
     (if params_id req = [] then router_get_all send env req w
      else router_get_by_id send env now req w)"

text \<open>
  \<open>router.post('/')\<close>: \<open>const { id, name } = req.body\<close>, then \<open>putItem({ id, name })\<close>.
  The two locals are written \<open>ident\<close> and \<open>nm\<close>. The body is a JSON object, as
  \<open>express.json()\<close> leaves it.
\<close>

definition router_post ::
  "'st ddb_client \<Rightarrow> process_env \<Rightarrow> string \<Rightarrow> request \<Rightarrow> 'st world \<Rightarrow> outcome \<times> 'st world" where
  "router_post send env now req w =
     (let ident = get_prop (body req) ''id'';
          nm = get_prop (body req) ''name''
      in if \<not> truthy ident \<or> \<not> truthy nm
         then
           (Sent \<lparr>status = 400,
                  json = JObj [(''error'', JObj
                    [(''message'', JStr ''Both id and name are required in the request body''),
                     (''statusCode'', JNum 400),
                     (''timestamp'', JStr now),
                     (''path'', JStr (path req))])]\<rparr>, w)
         else
           (case putItem send env now [(''id'', ident), (''name'', nm)] w of
              (Inr item, w') \<Rightarrow> (Sent \<lparr>status = 200, json = JObj item\<rparr>, w')
            | (Inl error, w') \<Rightarrow> (Next error, w')))"

section \<open>The error handler (middleware/errorHandler.ts)\<close>

text \<open>
  The body is the object passed to \<open>res.json\<close>. The spread
  \<open>...(isDevelopment && { stack: err.stack })\<close> adds the property \<open>stack\<close> when
  \<open>isDevelopment\<close> holds and nothing otherwise; an error without a stack gives the property
  the value \<open>undefined\<close>.

  \<open>res.status(statusCode).json(...)\<close> accepts a status from 100 to 999 only. Any other number
  is refused with a \<open>RangeError\<close> before anything is sent (by \<open>res.status\<close> in Express 5, by
  Node's \<open>writeHead\<close> under Express 4), and the handler ends by that throw. The text of the
  error differs between the two and is not modelled beyond its first words.
\<close>

definition invalid_status_code :: api_error where
  "invalid_status_code =
     \<lparr>name = ''RangeError'', message = ''Invalid status code'',
      stack = Some ''RangeError: Invalid status code'', statusCode = None\<rparr>"

definition errorHandler ::
  "process_env \<Rightarrow> string \<Rightarrow> api_error \<Rightarrow> request \<Rightarrow> 'st world \<Rightarrow> (api_error + response) \<times> 'st world" where
  "errorHandler env now err req w =
     (let w' = w\<lparr>console_error := console_error w @
                 [(''Error occurred:'', LoggedObject
                    [(''message'', JStr (message err)),
                     (''stack'', (case stack err of None \<Rightarrow> JUndefined | Some s \<Rightarrow> JStr s)),
                     (''path'', JStr (path req)),
                     (''method'', JStr (req_method req)),
                     (''statusCode'', (case statusCode err of None \<Rightarrow> JUndefined | Some c \<Rightarrow> JNum c))])]\<rparr>;
          statusCode0 = (case statusCode err of None \<Rightarrow> 500 | Some c \<Rightarrow> if c \<noteq> 0 then c else 500);
          message0 = (if message err \<noteq> [] then message err else ''Internal Server Error'');
          (statusCode1, message1) =
            (if name err = ''ValidationError'' then (400, ''Validation Error'')
             else if name err = ''CastError'' then (400, ''Invalid ID format'')
             else if name err = ''JsonWebTokenError'' then (401, ''Invalid token'')
             else (statusCode0, message0));
          isDevelopment = (ENVIRONMENT env \<noteq> Some ''prod'')
      in if 100 \<le> statusCode1 \<and> statusCode1 \<le> 999
         then
           (Inr \<lparr>status = statusCode1,
                 json = JObj [(''error'', JObj
                   ([(''message'', JStr message1),
                     (''statusCode'', JNum statusCode1),
                     (''timestamp'', JStr now),
                     (''path'', JStr (path req))]
                    @ (if isDevelopment
                       then [(''stack'', (case stack err of None \<Rightarrow> JUndefined | Some s \<Rightarrow> JStr s))]
                       else [])))]\<rparr>, w')
         else (Inl invalid_status_code, w'))"

text \<open>
  \<open>app.use('/api/items', itemsRouter)\<close> followed by \<open>app.use(errorHandler)\<close> (app.ts): an
  error handed to \<open>next\<close> leaves the router, which restores the request's whole path, and
  reaches the error handler, which reads the clock again (\<open>now_err\<close>). An error thrown by
  the error handler itself falls to Express's final handler: the \<open>RangeError\<close> carries no
  status, so the answer is 500 with an HTML page and no JSON body.
\<close>

definition final_handler_response :: response where
  "final_handler_response = \<lparr>status = 500, json = JUndefined\<rparr>"

definition app_respond ::
  "process_env \<Rightarrow> string \<Rightarrow> request \<Rightarrow> outcome \<times> 'st world \<Rightarrow> response \<times> 'st world" where
  "app_respond env now_err req r =
     (case r of
        (Sent res, w) \<Rightarrow> (res, w)
      | (Next err, w) \<Rightarrow>
          (case errorHandler env now_err err (req\<lparr>path := full_path req\<rparr>) w of
             (Inr res, w') \<Rightarrow> (res, w')
           | (Inl thrown, w') \<Rightarrow> (final_handler_response, w')))"

definition app_get_all ::
  "'st ddb_client \<Rightarrow> process_env \<Rightarrow> string \<Rightarrow> request \<Rightarrow> 'st world \<Rightarrow> response \<times> 'st world" where
  "app_get_all send env now_err req w = app_respond env now_err req (router_get_all send env req w)"

text \<open>
  A GET of \<open>/api/items/\<close> followed by the id segment \<open>params_id req\<close>: the router picks the
  route.
\<close>

definition app_get_by_id ::
  "'st ddb_client \<Rightarrow> process_env \<Rightarrow> string \<Rightarrow> string \<Rightarrow> request \<Rightarrow> 'st world \<Rightarrow> response \<times> 'st world" where
  "app_get_by_id send env now now_err req w =
     app_respond env now_err req (router_get send env now req w)"

definition app_post ::
  "'st ddb_client \<Rightarrow> process_env \<Rightarrow> string \<Rightarrow> string \<Rightarrow> request \<Rightarrow> 'st world \<Rightarrow> response \<times> 'st world" where
  "app_post send env now now_err req w =
     app_respond env now_err req (router_post send env now req w)"

section \<open>The table\<close>

text \<open>
  Modelled from the spec: the table itself is an external service and not part of the
  repository. The spec describes it as a single table keyed by an identifier string with
  single-key overwrite semantics; the backend README adds that the key is the string
  attribute \<open>id\<close>. A call may reject with any error (\<open>fault\<close>), and then writes nothing;
  a key that is not a string is rejected.
\<close>

type_synonym table = "(string \<times> jsobj) list"

definition ValidationException :: api_error where
  "ValidationException =
     \<lparr>name = ''ValidationException'',
      message = ''The provided key element does not match the schema'',
      stack = Some ''ValidationException: The provided key element does not match the schema'',
      statusCode = None\<rparr>"

definition table_send :: "api_error option \<Rightarrow> table ddb_client" where
  "table_send fault cmd tbl =
     (case fault of
        Some e \<Rightarrow> (Inl e, tbl)
      | None \<Rightarrow>
        (case cmd of
           ScanCommand tn \<Rightarrow> (Inr \<lparr>Items = Some (map snd tbl), Item = None\<rparr>, tbl)
         | GetCommand tn key \<Rightarrow>
             (case get_prop key ''id'' of
                JStr k \<Rightarrow> (Inr \<lparr>Items = None, Item = map_of tbl k\<rparr>, tbl)
              | _ \<Rightarrow> (Inl ValidationException, tbl))
         | PutCommand tn item \<Rightarrow>
             (case get_prop item ''id'' of
                JStr k \<Rightarrow> (Inr \<lparr>Items = None, Item = None\<rparr>, AList.update k item tbl)
              | _ \<Rightarrow> (Inl ValidationException, tbl))))"

section \<open>Histories and expected responses\<close>

text \<open>
  A history of upsert calls against the table: each entry gives the fault of the store call
  (if any), the clock reading and the item. A failed call leaves the world as
  \<open>putItem\<close> left it.
\<close>

fun upserts ::
  "process_env \<Rightarrow> (api_error option \<times> string \<times> jsobj) list \<Rightarrow> table world \<Rightarrow> table world" where
  "upserts env [] w = w"
| "upserts env ((fault, now, item) # ops) w =
     upserts env ops (snd (putItem (table_send fault) env now item w))"

text \<open>
  The 500 response of the error envelope for a message \<open>msg\<close>, as a caller sees it: the
  path is the whole path of the request, and the stack line is that of the error the adapter
  created, there outside \<open>prod\<close> only.
\<close>

definition internal_error_response :: "process_env \<Rightarrow> string \<Rightarrow> request \<Rightarrow> string \<Rightarrow> response" where
  "internal_error_response env now_err req msg =
     \<lparr>status = 500,
      json = JObj [(''error'', JObj
        ([(''message'', JStr msg), (''statusCode'', JNum 500),
          (''timestamp'', JStr now_err), (''path'', JStr (full_path req))]
         @ (if ENVIRONMENT env \<noteq> Some ''prod'' then [(''stack'', JStr (''Error: '' @ msg))] else [])))]\<rparr>"

section \<open>Sample data\<close>

text \<open>The values the repository's unit and end-to-end tests use.\<close>

definition env_dev :: process_env where
  "env_dev = \<lparr>SAMPLE_TABLE = Some ''test-table'', ENVIRONMENT = Some ''dev''\<rparr>"

definition env_prod :: process_env where
  "env_prod = \<lparr>SAMPLE_TABLE = Some ''test-table'', ENVIRONMENT = Some ''prod''\<rparr>"

definition world0 :: "table world" where
  "world0 = \<lparr>db = [], console_error = []\<rparr>"

definition T1 :: string where
  "T1 = ''2025-01-01T00:00:00.000Z''"

definition T2 :: string where
  "T2 = ''2025-01-02T00:00:00.000Z''"

definition throttled :: api_error where
  "throttled =
     \<lparr>name = ''ProvisionedThroughputExceededException'', message = ''Rate exceeded'',
      stack = Some ''ProvisionedThroughputExceededException: Rate exceeded'', statusCode = None\<rparr>"

definition item1 :: jsobj where
  "item1 = [(''id'', JStr ''id1''), (''name'', JStr ''name1'')]"

definition stored1 :: "string \<Rightarrow> string \<Rightarrow> jsobj" where
  "stored1 nm t =
     [(''id'', JStr ''id1''), (''name'', JStr nm), (''createdAt'', JStr t), (''updatedAt'', JStr t)]"

definition get_req :: "string \<Rightarrow> request" where
  "get_req ident =
     \<lparr>path = ''/'' @ ident, full_path = ''/api/items/'' @ ident, req_method = ''GET'',
      params_id = ident, body = []\<rparr>"

definition post_req :: "jsobj \<Rightarrow> request" where
  "post_req b =
     \<lparr>path = ''/'', full_path = ''/api/items'', req_method = ''POST'', params_id = [], body = b\<rparr>"

section \<open>Objects and the table\<close>

lemma get_prop_assign:
  "get_prop (assign k v obj) k' = (if k' = k then v else get_prop obj k')"
  by (simp add: get_prop_def assign_def update_conv')

lemma table_send_put_ok:
  "table_send f (PutCommand tn item) tbl = (Inr out, tbl') \<Longrightarrow>
     f = None \<and> (\<exists>k. get_prop item ''id'' = JStr k \<and> tbl' = AList.update k item tbl)"
  by (auto simp: table_send_def split: option.splits jsval.splits)

lemma table_send_get:
  "table_send None (GetCommand tn [(''id'', JStr k)]) tbl =
     (Inr \<lparr>Items = None, Item = map_of tbl k\<rparr>, tbl)"
  by (simp add: table_send_def get_prop_def)

text \<open>What a successful \<open>putItem\<close> tells about its arguments and its effect.\<close>

lemma putItem_ok:
  assumes "putItem send env now item w = (Inr r, w')"
  shows "\<not> tableName_unset env \<and> truthy (get_prop item ''id'') \<and> truthy (get_prop item ''name'')
         \<and> r = assign ''updatedAt'' (JStr now) (assign ''createdAt'' (JStr now) item)
         \<and> (\<exists>data. send (PutCommand (tableName env) r) (db w) = (Inr data, db w'))
         \<and> console_error w' = console_error w"
  using assms
  by (auto simp: putItem_def Let_def split: if_splits prod.splits sum.splits)

lemma env_dev_set: "\<not> tableName_unset env_dev"
  by (simp add: tableName_unset_def env_dev_def)

lemma put_item1:
  "putItem (table_send None) env_dev t [(''id'', JStr ''id1''), (''name'', JStr nm)]
       \<lparr>db = tbl, console_error = lg\<rparr> =
     (if nm = [] then (Inl (new_Error ''Both id and name are required''), \<lparr>db = tbl, console_error = lg\<rparr>)
      else (Inr (stored1 nm t), \<lparr>db = AList.update ''id1'' (stored1 nm t) tbl, console_error = lg\<rparr>))"
  by (simp add: putItem_def env_dev_set get_prop_def assign_def table_send_def stored1_def Let_def)

section \<open>Write, then read\<close>

text \<open>
  Claim C1. For every item whose \<open>id\<close> and \<open>name\<close> are non-empty strings, a successful
  upsert of that item against the table, followed immediately by \<open>getById\<close> with the same
  id (the read's store call not failing), returns an item whose \<open>id\<close> and \<open>name\<close> are
  the input's.
\<close>

theorem upsert_then_getById:
  assumes put: "putItem (table_send f) env now item w = (Inr r, w1)"
    and ident: "get_prop item ''id'' = JStr i" "i \<noteq> []"
    and nm: "get_prop item ''name'' = JStr n" "n \<noteq> []"
  shows "\<exists>r' w2. getItemById (table_send None) env i w1 = (Inr (Some r'), w2)
           \<and> get_prop r' ''id'' = JStr i \<and> get_prop r' ''name'' = JStr n"
proof -
  from putItem_ok [OF put] obtain data where
    env: "\<not> tableName_unset env"
    and r: "r = assign ''updatedAt'' (JStr now) (assign ''createdAt'' (JStr now) item)"
    and sent: "table_send f (PutCommand (tableName env) r) (db w) = (Inr data, db w1)"
    by blast
  have rid: "get_prop r ''id'' = JStr i" and rnm: "get_prop r ''name'' = JStr n"
    using ident nm by (simp_all add: r get_prop_assign)
  from table_send_put_ok [OF sent] rid have "db w1 = AList.update i r (db w)"
    by auto
  then have stored: "map_of (db w1) i = Some r"
    by (simp add: update_conv')
  have "getItemById (table_send None) env i w1 = (Inr (Some r), w1)"
    using env ident(2) stored by (simp add: getItemById_def table_send_get)
  with rid rnm show ?thesis by blast
qed

text \<open>The unit test's item \<open>{id: 'id1', name: 'name1'}\<close>, written to the empty table.\<close>

theorem upsert_then_getById_witness:
  "putItem (table_send None) env_dev T1 item1 world0 =
     (Inr (stored1 ''name1'' T1), \<lparr>db = [(''id1'', stored1 ''name1'' T1)], console_error = []\<rparr>)
   \<and> (\<exists>r' w2. getItemById (table_send None) env_dev ''id1''
          \<lparr>db = [(''id1'', stored1 ''name1'' T1)], console_error = []\<rparr> = (Inr (Some r'), w2)
        \<and> get_prop r' ''id'' = JStr ''id1'' \<and> get_prop r' ''name'' = JStr ''name1'')"
proof -
  have put: "putItem (table_send None) env_dev T1 item1 world0 =
     (Inr (stored1 ''name1'' T1), \<lparr>db = [(''id1'', stored1 ''name1'' T1)], console_error = []\<rparr>)"
    by (simp add: item1_def world0_def put_item1)
  have "get_prop item1 ''id'' = JStr ''id1''" "''id1'' \<noteq> []"
       "get_prop item1 ''name'' = JStr ''name1''" "''name1'' \<noteq> []"
    by (simp_all add: item1_def get_prop_def)
  from upsert_then_getById [OF put this] put show ?thesis by simp
qed

section \<open>Timestamps of a write\<close>

text \<open>
  Claim C6. For every successful upsert, \<open>createdAt\<close> and \<open>updatedAt\<close> of the returned
  record both carry the clock reading taken at the write, so they are equal; and the returned
  record is the very record handed to the store's put, which succeeded.
\<close>

theorem upsert_stamps_both:
  assumes "putItem send env now item w = (Inr r, w')"
  shows "get_prop r ''createdAt'' = JStr now \<and> get_prop r ''updatedAt'' = JStr now
       \<and> get_prop r ''createdAt'' = get_prop r ''updatedAt''
       \<and> (\<exists>data. send (PutCommand (tableName env) r) (db w) = (Inr data, db w'))"
  using putItem_ok [OF assms] by (auto simp: get_prop_assign)

theorem upsert_stamps_both_witness:
  "putItem (table_send None) env_dev T1 item1 world0 =
     (Inr (stored1 ''name1'' T1), \<lparr>db = [(''id1'', stored1 ''name1'' T1)], console_error = []\<rparr>)
   \<and> get_prop (stored1 ''name1'' T1) ''createdAt'' = JStr T1
   \<and> get_prop (stored1 ''name1'' T1) ''updatedAt'' = JStr T1
   \<and> get_prop (stored1 ''name1'' T1) ''createdAt'' = get_prop (stored1 ''name1'' T1) ''updatedAt''
   \<and> map_of [(''id1'', stored1 ''name1'' T1)] ''id1'' = Some (stored1 ''name1'' T1)"
proof -
  have put: "putItem (table_send None) env_dev T1 item1 world0 =
     (Inr (stored1 ''name1'' T1), \<lparr>db = [(''id1'', stored1 ''name1'' T1)], console_error = []\<rparr>)"
    by (simp add: item1_def world0_def put_item1)
  from upsert_stamps_both [OF put] put show ?thesis by simp
qed

section \<open>Rejected requests\<close>

text \<open>
  Claim C2. For every POST request whose body has a falsy \<open>id\<close> or a falsy \<open>name\<close>
  (absent, empty, \<open>null\<close>, \<open>0\<close>, \<open>false\<close>), the response is 400 in the error envelope,
  with \<open>statusCode\<close> 400 and a message containing "required". Whatever the client would do,
  the world (table state and error log) is returned as it was, so no store call was made,
  and any later \<open>getById\<close> answers as it would have before.
\<close>

theorem post_invalid_400:
  assumes "\<not> truthy (get_prop (body req) ''id'') \<or> \<not> truthy (get_prop (body req) ''name'')"
  shows "\<exists>msg. app_post send env now now_err req w =
           (\<lparr>status = 400,
             json = JObj [(''error'', JObj
               [(''message'', JStr msg), (''statusCode'', JNum 400),
                (''timestamp'', JStr now), (''path'', JStr (path req))])]\<rparr>, w)
         \<and> sublist ''required'' msg
         \<and> getItemById send' env i (snd (app_post send env now now_err req w)) =
             getItemById send' env i w"
proof -
  have "sublist ''required'' (''Both id and name are '' @ ''required'' @ '' in the request body'')"
    by (rule sublist_appendI)
  then have "sublist ''required'' ''Both id and name are required in the request body''"
    by simp
  moreover have "app_post send env now now_err req w =
           (\<lparr>status = 400,
             json = JObj [(''error'', JObj
               [(''message'', JStr ''Both id and name are required in the request body''),
                (''statusCode'', JNum 400),
                (''timestamp'', JStr now), (''path'', JStr (path req))])]\<rparr>, w)"
    using assms by (auto simp: app_post_def router_post_def app_respond_def Let_def)
  ultimately show ?thesis by auto
qed

text \<open>
  The end-to-end test's body \<open>{name: 'Missing ID field'}\<close>; the id \<open>ghost\<close>, absent
  before the request, is still reported absent after it.
\<close>

theorem post_invalid_400_witness:
  "\<not> truthy (get_prop (body (post_req [(''name'', JStr ''Missing ID field'')])) ''id'')
   \<and> status (fst (app_post (table_send None) env_dev T1 T2
         (post_req [(''name'', JStr ''Missing ID field'')]) world0)) = 400
   \<and> snd (app_post (table_send None) env_dev T1 T2
         (post_req [(''name'', JStr ''Missing ID field'')]) world0) = world0
   \<and> getItemById (table_send None) env_dev ''ghost''
        (snd (app_post (table_send None) env_dev T1 T2
           (post_req [(''name'', JStr ''Missing ID field'')]) world0)) = (Inr None, world0)"
proof -
  have h: "\<not> truthy (get_prop (body (post_req [(''name'', JStr ''Missing ID field'')])) ''id'')"
    by (simp add: post_req_def get_prop_def)
  have ghost: "getItemById (table_send None) env_dev ''ghost'' world0 = (Inr None, world0)"
    by (simp add: getItemById_def env_dev_set table_send_get world0_def)
  from post_invalid_400 [OF disjI1 [OF h], of "table_send None" env_dev T1 T2 world0
      "table_send None" "''ghost''"]
  show ?thesis using h ghost by auto
qed

section \<open>Reading an absent item\<close>

lemma putItem_keeps_absent:
  assumes "map_of (db w) i = None" and "get_prop item ''id'' \<noteq> JStr i"
  shows "map_of (db (snd (putItem (table_send f) env now item w))) i = None"
  using assms
  by (auto simp: putItem_def Let_def table_send_def get_prop_assign update_conv'
           split: option.splits jsval.splits)

lemma upserts_keep_absent:
  assumes "map_of (db w) i = None"
    and "\<forall>op \<in> set ops. get_prop (snd (snd op)) ''id'' \<noteq> JStr i"
  shows "map_of (db (upserts env ops w)) i = None"
  using assms
proof (induction ops arbitrary: w)
  case Nil
  then show ?case by simp
next
  case (Cons op ops)
  obtain f now item where op: "op = (f, now, item)" by (cases op) auto
  have "map_of (db (snd (putItem (table_send f) env now item w))) i = None"
    using Cons.prems op by (intro putItem_keeps_absent) auto
  then show ?case using Cons.IH Cons.prems op by simp
qed

lemma getItemById_absent:
  assumes "\<not> tableName_unset env" "i \<noteq> []" "map_of (db w) i = None"
  shows "getItemById (table_send None) env i w = (Inr None, w)"
  using assms by (simp add: getItemById_def table_send_get)

text \<open>
  Claim C4. Take the table after any history of upserts, started empty, none of which wrote
  the (non-empty) id \<open>i\<close>. With the table configured and the store answering,
  \<open>getById\<close> returns the not-found value \<open>null\<close> and raises nothing, and
  GET \<open>/api/items/i\<close> answers 404 in the error envelope, with \<open>statusCode\<close> 404 and a
  message containing \<open>i\<close>.
\<close>

theorem getById_never_written:
  assumes env: "\<not> tableName_unset env"
    and i: "i \<noteq> []" "params_id req = i"
    and never: "\<forall>op \<in> set ops. get_prop (snd (snd op)) ''id'' \<noteq> JStr i"
    and w: "w = upserts env ops \<lparr>db = [], console_error = []\<rparr>"
  shows "getItemById (table_send None) env i w = (Inr None, w)
       \<and> (\<exists>msg. app_get_by_id (table_send None) env now now_err req w =
             (\<lparr>status = 404,
               json = JObj [(''error'', JObj
                 [(''message'', JStr msg), (''statusCode'', JNum 404),
                  (''timestamp'', JStr now), (''path'', JStr (path req))])]\<rparr>, w)
           \<and> sublist i msg)"
proof -
  have absent: "map_of (db w) i = None"
    unfolding w using never by (intro upserts_keep_absent) simp_all
  have get: "getItemById (table_send None) env i w = (Inr None, w)"
    using env i(1) absent by (rule getItemById_absent)
  let ?msg = "''Item with id '' @ [CHR 0x27] @ i @ [CHR 0x27] @ '' not found''"
  have "sublist i ?msg"
    by (metis sublist_appendI append.assoc)
  moreover have "app_get_by_id (table_send None) env now now_err req w =
             (\<lparr>status = 404,
               json = JObj [(''error'', JObj
                 [(''message'', JStr ?msg), (''statusCode'', JNum 404),
                  (''timestamp'', JStr now), (''path'', JStr (path req))])]\<rparr>, w)"
    using get i by (simp add: app_get_by_id_def router_get_def router_get_by_id_def app_respond_def)
  ultimately show ?thesis using get by blast
qed

text \<open>After \<open>id1\<close> was written, \<open>ghost\<close> is still not found.\<close>

theorem getById_never_written_witness:
  "upserts env_dev [(None, T1, item1)] \<lparr>db = [], console_error = []\<rparr> =
     \<lparr>db = [(''id1'', stored1 ''name1'' T1)], console_error = []\<rparr>
   \<and> getItemById (table_send None) env_dev ''ghost''
       \<lparr>db = [(''id1'', stored1 ''name1'' T1)], console_error = []\<rparr> =
       (Inr None, \<lparr>db = [(''id1'', stored1 ''name1'' T1)], console_error = []\<rparr>)
   \<and> status (fst (app_get_by_id (table_send None) env_dev T2 T2 (get_req ''ghost'')
       \<lparr>db = [(''id1'', stored1 ''name1'' T1)], console_error = []\<rparr>)) = 404"
proof -
  have w: "\<lparr>db = [(''id1'', stored1 ''name1'' T1)], console_error = []\<rparr> =
      upserts env_dev [(None, T1, item1)] \<lparr>db = [], console_error = []\<rparr>"
    by (simp add: item1_def put_item1)
  have never: "\<forall>op \<in> set [(None :: api_error option, T1, item1)].
      get_prop (snd (snd op)) ''id'' \<noteq> JStr ''ghost''"
    by (simp add: item1_def get_prop_def)
  have i: "''ghost'' \<noteq> []" "params_id (get_req ''ghost'') = ''ghost''"
    by (simp_all add: get_req_def)
  from getById_never_written [OF env_dev_set i never w, of T2 T2] w
  show ?thesis by auto
qed

section \<open>Store failures\<close>

lemma app_respond_new_Error:
  assumes "msg \<noteq> []"
  shows "fst (app_respond env now_err req (Next (new_Error msg), w)) =
           internal_error_response env now_err req msg"
  using assms
  by (simp add: app_respond_def errorHandler_def new_Error_def internal_error_response_def Let_def)

text \<open>
  Claim C5. With the table configured, whatever error \<open>e\<close> the store call of an adapter
  operation rejects with, the operation appends \<open>e\<close> to the error log and raises a new
  \<open>Error\<close> with a fixed message (one per operation) in which nothing of \<open>e\<close> appears;
  the route hands it to the error handler and the caller receives the 500 envelope built from
  that fixed message alone. The three conjuncts are \<open>listAll\<close>, \<open>getById\<close> (non-empty
  id) and \<open>upsert\<close> (truthy id and name); the last also covers the body of a POST.
\<close>

theorem store_failure_flattened:
  assumes env: "\<not> tableName_unset env"
  shows "(send (ScanCommand (tableName env)) (db w) = (Inl e, s) \<longrightarrow>
            getAllItems send env w =
              (Inl (new_Error ''Failed to retrieve items from database''),
               w\<lparr>db := s,
                 console_error := console_error w @ [(''Error getting all items:'', LoggedError e)]\<rparr>)
          \<and> fst (app_get_all send env now_err req w) =
              internal_error_response env now_err req ''Failed to retrieve items from database'')
       \<and> (i \<noteq> [] \<and> params_id req = i
            \<and> send (GetCommand (tableName env) [(''id'', JStr i)]) (db w) = (Inl e, s) \<longrightarrow>
            getItemById send env i w =
              (Inl (new_Error ''Failed to retrieve item from database''),
               w\<lparr>db := s,
                 console_error := console_error w @ [(''Error getting item by id:'', LoggedError e)]\<rparr>)
          \<and> fst (app_get_by_id send env now now_err req w) =
              internal_error_response env now_err req ''Failed to retrieve item from database'')
       \<and> (truthy (get_prop item ''id'') \<and> truthy (get_prop item ''name'')
            \<and> send (PutCommand (tableName env)
                  (assign ''updatedAt'' (JStr now) (assign ''createdAt'' (JStr now) item))) (db w)
                = (Inl e, s) \<longrightarrow>
            putItem send env now item w =
              (Inl (new_Error ''Failed to save item to database''),
               w\<lparr>db := s,
                 console_error := console_error w @ [(''Error putting item:'', LoggedError e)]\<rparr>)
          \<and> (item = [(''id'', get_prop (body req) ''id''), (''name'', get_prop (body req) ''name'')] \<longrightarrow>
               fst (app_post send env now now_err req w) =
                 internal_error_response env now_err req ''Failed to save item to database''))"
proof (intro conjI impI)
  assume "send (ScanCommand (tableName env)) (db w) = (Inl e, s)"
  then show "getAllItems send env w =
      (Inl (new_Error ''Failed to retrieve items from database''),
       w\<lparr>db := s,
         console_error := console_error w @ [(''Error getting all items:'', LoggedError e)]\<rparr>)"
    using env by (simp add: getAllItems_def)
  then show "fst (app_get_all send env now_err req w) =
      internal_error_response env now_err req ''Failed to retrieve items from database''"
    by (simp add: app_get_all_def router_get_all_def app_respond_new_Error)
next
  assume "i \<noteq> [] \<and> params_id req = i
    \<and> send (GetCommand (tableName env) [(''id'', JStr i)]) (db w) = (Inl e, s)"
  then show get: "getItemById send env i w =
      (Inl (new_Error ''Failed to retrieve item from database''),
       w\<lparr>db := s,
         console_error := console_error w @ [(''Error getting item by id:'', LoggedError e)]\<rparr>)"
    using env by (simp add: getItemById_def)
  assume "i \<noteq> [] \<and> params_id req = i
    \<and> send (GetCommand (tableName env) [(''id'', JStr i)]) (db w) = (Inl e, s)"
  with get show "fst (app_get_by_id send env now now_err req w) =
      internal_error_response env now_err req ''Failed to retrieve item from database''"
    by (simp add: app_get_by_id_def router_get_def router_get_by_id_def app_respond_new_Error)
next
  assume a: "truthy (get_prop item ''id'') \<and> truthy (get_prop item ''name'')
    \<and> send (PutCommand (tableName env)
          (assign ''updatedAt'' (JStr now) (assign ''createdAt'' (JStr now) item))) (db w)
        = (Inl e, s)"
  then show put: "putItem send env now item w =
      (Inl (new_Error ''Failed to save item to database''),
       w\<lparr>db := s,
         console_error := console_error w @ [(''Error putting item:'', LoggedError e)]\<rparr>)"
    using env by (simp add: putItem_def Let_def)
  assume "item = [(''id'', get_prop (body req) ''id''), (''name'', get_prop (body req) ''name'')]"
  with a put show "fst (app_post send env now now_err req w) =
      internal_error_response env now_err req ''Failed to save item to database''"
    by (simp add: app_post_def router_post_def app_respond_new_Error Let_def get_prop_def)
qed

text \<open>A throttled table: every call rejects with \<open>throttled\<close>; production mode.\<close>

theorem store_failure_flattened_witness:
  "getAllItems (table_send (Some throttled)) env_prod world0 =
     (Inl (new_Error ''Failed to retrieve items from database''),
      \<lparr>db = [], console_error = [(''Error getting all items:'', LoggedError throttled)]\<rparr>)
   \<and> fst (app_get_all (table_send (Some throttled)) env_prod T2 (get_req []) world0) =
       \<lparr>status = 500, json = JObj [(''error'', JObj
          [(''message'', JStr ''Failed to retrieve items from database''),
           (''statusCode'', JNum 500), (''timestamp'', JStr T2), (''path'', JStr ''/api/items/'')])]\<rparr>
   \<and> fst (getItemById (table_send (Some throttled)) env_prod ''id1'' world0) =
       Inl (new_Error ''Failed to retrieve item from database'')
   \<and> status (fst (app_get_by_id (table_send (Some throttled)) env_prod T1 T2 (get_req ''id1'') world0)) = 500
   \<and> fst (putItem (table_send (Some throttled)) env_prod T1 item1 world0) =
       Inl (new_Error ''Failed to save item to database'')
   \<and> status (fst (app_post (table_send (Some throttled)) env_prod T1 T2 (post_req item1) world0)) = 500"
proof -
  have env: "\<not> tableName_unset env_prod"
    by (simp add: tableName_unset_def env_prod_def)
  have fails: "table_send (Some throttled) cmd (db world0) = (Inl throttled, [])" for cmd
    by (simp add: table_send_def world0_def)
  have i: "''id1'' \<noteq> [] \<and> params_id (get_req ''id1'') = ''id1''"
    by (simp add: get_req_def)
  have item: "truthy (get_prop item1 ''id'') \<and> truthy (get_prop item1 ''name'')"
    "item1 = [(''id'', get_prop (body (post_req item1)) ''id''),
              (''name'', get_prop (body (post_req item1)) ''name'')]"
    by (simp_all add: item1_def get_prop_def post_req_def)
  note inst = store_failure_flattened [OF env, where send = "table_send (Some throttled)"
      and w = world0 and e = throttled and s = "[]"]
  have a: "getAllItems (table_send (Some throttled)) env_prod world0 =
     (Inl (new_Error ''Failed to retrieve items from database''),
      world0\<lparr>db := [],
        console_error := console_error world0 @ [(''Error getting all items:'', LoggedError throttled)]\<rparr>)"
    and b: "fst (app_get_all (table_send (Some throttled)) env_prod T2 (get_req []) world0) =
       internal_error_response env_prod T2 (get_req []) ''Failed to retrieve items from database''"
    using inst [where now_err = T2 and req = "get_req []"] fails by blast+
  have c: "fst (getItemById (table_send (Some throttled)) env_prod ''id1'' world0) =
       Inl (new_Error ''Failed to retrieve item from database'')"
    and d: "fst (app_get_by_id (table_send (Some throttled)) env_prod T1 T2 (get_req ''id1'') world0) =
       internal_error_response env_prod T2 (get_req ''id1'') ''Failed to retrieve item from database''"
    using inst [where now_err = T2 and req = "get_req ''id1''" and i = "''id1''" and now = T1]
      fails i by auto
  have e: "fst (putItem (table_send (Some throttled)) env_prod T1 item1 world0) =
       Inl (new_Error ''Failed to save item to database'')"
    and f: "fst (app_post (table_send (Some throttled)) env_prod T1 T2 (post_req item1) world0) =
       internal_error_response env_prod T2 (post_req item1) ''Failed to save item to database''"
    using inst [where now_err = T2 and req = "post_req item1" and item = item1 and now = T1]
      fails item by auto
  show ?thesis
    using a b c d e f
    by (simp add: internal_error_response_def env_prod_def world0_def get_req_def)
qed

section \<open>The error envelope\<close>




section \<open>An empty id\<close>




section \<open>Listing\<close>

text \<open>
  Claim C9. With the table configured: \<open>listAll\<close> on the empty table returns the empty
  list; so it does for any client whose scan succeeds with \<open>Items\<close> empty or absent; and
  whenever the adapter returns a list, GET \<open>/api/items\<close> answers 200 with that list as a
  JSON array.
\<close>

theorem listAll_empty_store:
  assumes "\<not> tableName_unset env"
  shows "getAllItems (table_send None) env \<lparr>db = [], console_error = lg\<rparr> =
           (Inr [], \<lparr>db = [], console_error = lg\<rparr>)
       \<and> (send (ScanCommand (tableName env)) (db w) = (Inr out, s) \<and> Items out \<in> {None, Some []} \<longrightarrow>
            fst (getAllItems send env w) = Inr [])
       \<and> (getAllItems send env w = (Inr items, w') \<longrightarrow>
            app_get_all send env now_err req w = (\<lparr>status = 200, json = JArr (map JObj items)\<rparr>, w'))"
  using assms
  by (auto simp: getAllItems_def table_send_def app_get_all_def router_get_all_def app_respond_def)

theorem listAll_empty_store_witness:
  "getAllItems (table_send None) env_dev world0 = (Inr [], world0)
   \<and> app_get_all (table_send None) env_dev T1 (get_req []) world0 =
       (\<lparr>status = 200, json = JArr []\<rparr>, world0)"
proof -
  from listAll_empty_store [OF env_dev_set, of "[]" "table_send None" world0 _ _ "[]" world0
      T1 "get_req []"]
  show ?thesis by (simp add: world0_def)
qed

section \<open>Fields of a written record\<close>

text \<open>
  Claim C10. For every POST request body, whatever other fields it has: when the request
  succeeds (200), the record handed to the store's put, which is also the response body,
  consists of exactly the four fields \<open>id\<close>, \<open>name\<close> (the body's values), \<open>createdAt\<close>
  and \<open>updatedAt\<close>.
\<close>

theorem post_writes_four_fields:
  assumes "app_post send env now now_err req w = (res, w')" and "status res = 200"
  shows "\<exists>r data. json res = JObj r
           \<and> r = [(''id'', get_prop (body req) ''id''), (''name'', get_prop (body req) ''name''),
                  (''createdAt'', JStr now), (''updatedAt'', JStr now)]
           \<and> keys r = [''id'', ''name'', ''createdAt'', ''updatedAt'']
           \<and> send (PutCommand (tableName env) r) (db w) = (Inr data, db w')"
  using assms
  by (auto simp: app_post_def router_post_def app_respond_def Let_def putItem_def assign_def keys_def
        get_prop_def errorHandler_def new_Error_def final_handler_response_def
        split: if_splits prod.splits sum.splits)

text \<open>A body with two extra fields, one of them a forged \<open>createdAt\<close>.\<close>

theorem post_writes_four_fields_witness:
  "app_post (table_send None) env_dev T1 T2
      (post_req [(''role'', JStr ''admin''), (''id'', JStr ''id1''),
                 (''createdAt'', JStr ''1999''), (''name'', JStr ''name1'')]) world0 =
     (\<lparr>status = 200, json = JObj (stored1 ''name1'' T1)\<rparr>,
      \<lparr>db = [(''id1'', stored1 ''name1'' T1)], console_error = []\<rparr>)
   \<and> keys (stored1 ''name1'' T1) = [''id'', ''name'', ''createdAt'', ''updatedAt'']"
proof -
  let ?req = "post_req [(''role'', JStr ''admin''), (''id'', JStr ''id1''),
                 (''createdAt'', JStr ''1999''), (''name'', JStr ''name1'')]"
  have run: "app_post (table_send None) env_dev T1 T2 ?req world0 =
     (\<lparr>status = 200, json = JObj (stored1 ''name1'' T1)\<rparr>,
      \<lparr>db = [(''id1'', stored1 ''name1'' T1)], console_error = []\<rparr>)"
    by (simp add: app_post_def router_post_def app_respond_def Let_def post_req_def get_prop_def
          world0_def put_item1)
  from post_writes_four_fields [OF run] show ?thesis
    using run by auto
qed

section \<open>The creation timestamp\<close>

text \<open>
  Claim C3. The claim says that \<open>createdAt\<close> of a stored record never changes after the
  first write. The code does otherwise: of two successful upserts of the same id, the first
  stores a record whose \<open>createdAt\<close> is its own clock reading \<open>t1\<close>, and the second
  replaces it by a record whose \<open>createdAt\<close> is the second reading \<open>t2\<close>.
\<close>

theorem createdAt_overwritten:
  assumes first: "putItem (table_send f1) env t1 item_a w0 = (Inr r1, w1)"
    and second: "putItem (table_send f2) env t2 item_b w1 = (Inr r2, w2)"
    and same: "get_prop item_a ''id'' = JStr k" "get_prop item_b ''id'' = JStr k"
  shows "(\<exists>r. map_of (db w1) k = Some r \<and> get_prop r ''createdAt'' = JStr t1)
       \<and> (\<exists>r. map_of (db w2) k = Some r \<and> get_prop r ''createdAt'' = JStr t2)"
proof -
  have stored: "map_of (db w') k = Some r \<and> get_prop r ''createdAt'' = JStr t"
    if "putItem (table_send f) env t item w = (Inr r, w')" and "get_prop item ''id'' = JStr k"
    for f t item w r w'
  proof -
    from putItem_ok [OF that(1)] obtain data where
      r: "r = assign ''updatedAt'' (JStr t) (assign ''createdAt'' (JStr t) item)"
      and sent: "table_send f (PutCommand (tableName env) r) (db w) = (Inr data, db w')"
      by blast
    have "get_prop r ''id'' = JStr k" using that(2) by (simp add: r get_prop_assign)
    with table_send_put_ok [OF sent] have "db w' = AList.update k r (db w)" by auto
    then show ?thesis by (simp add: update_conv' r get_prop_assign)
  qed
  from stored [OF first same(1)] stored [OF second same(2)] show ?thesis by blast
qed

text \<open>\<open>id1\<close> written on 1 January and again on 2 January: the stored \<open>createdAt\<close> is
  2 January.\<close>

theorem createdAt_overwritten_witness:
  "putItem (table_send None) env_dev T1 item1 world0 =
     (Inr (stored1 ''name1'' T1), \<lparr>db = [(''id1'', stored1 ''name1'' T1)], console_error = []\<rparr>)
   \<and> putItem (table_send None) env_dev T2 [(''id'', JStr ''id1''), (''name'', JStr ''name2'')]
       \<lparr>db = [(''id1'', stored1 ''name1'' T1)], console_error = []\<rparr> =
     (Inr (stored1 ''name2'' T2), \<lparr>db = [(''id1'', stored1 ''name2'' T2)], console_error = []\<rparr>)
   \<and> get_prop (stored1 ''name1'' T1) ''createdAt'' = JStr T1
   \<and> get_prop (stored1 ''name2'' T2) ''createdAt'' = JStr T2
   \<and> T2 \<noteq> T1"
proof -
  have first: "putItem (table_send None) env_dev T1 item1 world0 =
     (Inr (stored1 ''name1'' T1), \<lparr>db = [(''id1'', stored1 ''name1'' T1)], console_error = []\<rparr>)"
    by (simp add: item1_def world0_def put_item1)
  have second: "putItem (table_send None) env_dev T2 [(''id'', JStr ''id1''), (''name'', JStr ''name2'')]
       \<lparr>db = [(''id1'', stored1 ''name1'' T1)], console_error = []\<rparr> =
     (Inr (stored1 ''name2'' T2), \<lparr>db = [(''id1'', stored1 ''name2'' T2)], console_error = []\<rparr>)"
    by (simp add: put_item1)
  have same: "get_prop item1 ''id'' = JStr ''id1''"
    "get_prop [(''id'', JStr ''id1''), (''name'', JStr ''name2'')] ''id'' = JStr ''id1''"
    by (simp_all add: item1_def get_prop_def)
  have "T2 \<noteq> T1"
    by (simp add: T1_def T2_def)
  with createdAt_overwritten [OF first second same] first second show ?thesis
    by simp
qed

end
